theory Spec2Isabelle
  imports Main "HOL-Library.Sublist" "HOL-Library.AList"
begin

section \<open>Python values used by main.py\<close>

text \<open>
  The exceptions main.py raises or receives from its libraries. All of them derive from
  Python's \<open>Exception\<close>, so every \<open>except Exception\<close> clause of the source
  catches each of them.
\<close>

datatype py_exception =
    ValueError | RuntimeError | TimeoutError | TypeError | KeyError | AttributeError
  | FileNotFoundError | FileExistsError | NotADirectoryError | IsADirectoryError
  | OSError | ShutilError | SCPException | SSHException

text \<open>
  What the program lets the outside see, in order: log records (the literal part of each
  message, without the interpolated values), connection attempts, transfers (remote path,
  recursive flag), the detachment of the instrumentation session, the printed summary
  (its status) and the usage error of the argument parser.
\<close>

datatype event =
    LogInfo string | LogWarning string | LogError string
  | Connect | Transfer string bool | Detach | Summary bool | UsageError

text \<open>Python truthiness of an \<open>Optional[str]\<close>: None and the empty string are false.\<close>

definition truthy_opt :: "string option \<Rightarrow> bool" where
  "truthy_opt v = (case v of None \<Rightarrow> False | Some s \<Rightarrow> s \<noteq> [])"

section \<open>SSHConfig\<close>

record SSHConfig =
  host :: string
  port :: int
  username :: string
  password :: "string option"
  key_filename :: "string option"

text \<open>
  The dataclass constructor followed by \<open>__post_init__\<close> (lines 38-40): the fields are
  stored, then the check raises ValueError when neither credential is truthy.
\<close>

definition SSHConfig_init ::
  "string \<Rightarrow> int \<Rightarrow> string \<Rightarrow> string option \<Rightarrow> string option \<Rightarrow> py_exception + SSHConfig" where
  "SSHConfig_init h p u pw kf =
     (if \<not> truthy_opt pw \<and> \<not> truthy_opt kf then Inl ValueError
      else Inr \<lparr>host = h, port = p, username = u, password = pw, key_filename = kf\<rparr>)"

text \<open>
  The invariant as section 3 of the specification words it: exactly one authentication
  method is usable.
\<close>

definition exactly_one_method :: "string option \<Rightarrow> string option \<Rightarrow> bool" where
  "exactly_one_method pw kf = (truthy_opt pw \<noteq> truthy_opt kf)"

section \<open>Strings and paths\<close>

text \<open>
  \<open>s.find(sub)\<close>: the lowest index at which \<open>sub\<close> occurs in \<open>s\<close>, or -1.
  \<open>find_from sub s i\<close> scans the rest \<open>s\<close> of the string, whose first character has
  index \<open>i\<close>.
\<close>

primrec find_from :: "string \<Rightarrow> string \<Rightarrow> nat \<Rightarrow> int" where
  "find_from sub [] i = (if sub = [] then int i else - 1)"
| "find_from sub (c # cs) i = (if prefix sub (c # cs) then int i else find_from sub cs (Suc i))"

definition str_find :: "string \<Rightarrow> string \<Rightarrow> int" where
  "str_find s sub = find_from sub s 0"

text \<open>
  The slice \<open>s[k:]\<close>: a negative start counts from the end, and the start is clamped to
  the string.
\<close>

definition slice_from :: "string \<Rightarrow> int \<Rightarrow> string" where
  "slice_from s k = (if k < 0 then drop (nat (int (length s) + k)) s else drop (nat k) s)"

text \<open>\<open>name.endswith(suf)\<close>.\<close>

definition endswith :: "string \<Rightarrow> string \<Rightarrow> bool" where
  "endswith s suf = suffix suf s"

text \<open>
  A path of the local file system is the list of its components below the root.
  \<open>parts\<close> is pathlib's reading of a string: split at the slashes, empty components and
  single dots dropped (a component \<open>..\<close> is kept as it is: pathlib does not resolve it).
\<close>

type_synonym path = "string list"

primrec split_slash :: "string \<Rightarrow> string \<Rightarrow> string list" where
  "split_slash cur [] = [rev cur]"
| "split_slash cur (c # cs) =
     (if c = CHR ''/'' then rev cur # split_slash [] cs else split_slash (c # cur) cs)"

definition parts :: "string \<Rightarrow> path" where
  "parts s = filter (\<lambda>w. w \<noteq> [] \<and> w \<noteq> ''.'') (split_slash [] s)"

definition is_absolute :: "string \<Rightarrow> bool" where
  "is_absolute s = (case s of [] \<Rightarrow> False | c # _ \<Rightarrow> c = CHR ''/'')"

text \<open>\<open>p / s\<close> on an absolute path \<open>p\<close>: an absolute right operand replaces the left one.\<close>

definition path_join :: "path \<Rightarrow> string \<Rightarrow> path" where
  "path_join p s = (if is_absolute s then parts s else p @ parts s)"

text \<open>\<open>Path(s).name\<close>: the last component, or the empty string when there is none.\<close>

definition path_name :: "string \<Rightarrow> string" where
  "path_name s = (case parts s of [] \<Rightarrow> [] | w # ws \<Rightarrow> last (w # ws))"

text \<open>\<open>p.relative_to(base)\<close> raises ValueError unless \<open>p\<close> lies under \<open>base\<close>.\<close>

definition relative_to :: "path \<Rightarrow> path \<Rightarrow> py_exception + path" where
  "relative_to p base = (if prefix base p then Inr (drop (length base) p) else Inl ValueError)"

section \<open>Messages\<close>

text \<open>
  A message of the instrumentation runtime is a Python dict; its payload is any JSON
  value (numbers are taken as integers). A dict is an association list in insertion
  order, looked up with \<open>map_of\<close>.
\<close>

datatype json =
    JNull | JBool bool | JNum int | JStr string | JList "json list"
  | JDict "(string \<times> json) list"

type_synonym message = "(string \<times> json) list"

text \<open>\<open>d.get(k)\<close>: a missing key reads as None.\<close>

definition dict_get :: "(string \<times> json) list \<Rightarrow> string \<Rightarrow> json" where
  "dict_get d k = (case map_of d k of None \<Rightarrow> JNull | Some v \<Rightarrow> v)"

text \<open>Python truthiness, as \<open>if not payload\<close> reads it.\<close>

fun truthy :: "json \<Rightarrow> bool" where
  "truthy JNull = False"
| "truthy (JBool b) = b"
| "truthy (JNum n) = (n \<noteq> 0)"
| "truthy (JStr s) = (s \<noteq> [])"
| "truthy (JList xs) = (xs \<noteq> [])"
| "truthy (JDict kvs) = (kvs \<noteq> [])"

text \<open>
  \<open>isinstance(payload, dict) and payload.get('type') == 'log'\<close>.
\<close>

fun is_log_payload :: "json \<Rightarrow> bool" where
  "is_log_payload (JDict kvs) = (dict_get kvs ''type'' = JStr ''log'')"
| "is_log_payload _ = False"

text \<open>
  \<open>k in payload\<close>: key membership for a dict, substring test for a string, element
  membership for a list; TypeError for the values that are no containers.
\<close>

definition is_substring :: "string \<Rightarrow> string \<Rightarrow> bool" where
  "is_substring sub s = (0 \<le> str_find s sub)"

fun py_in :: "string \<Rightarrow> json \<Rightarrow> py_exception + bool" where
  "py_in k (JDict kvs) = Inr (map_of kvs k \<noteq> None)"
| "py_in k (JStr s) = Inr (is_substring k s)"
| "py_in k (JList xs) = Inr (List.member xs (JStr k))"
| "py_in k _ = Inl TypeError"

text \<open>
  \<open>payload[k]\<close> with a string key: KeyError when a dict lacks the key, TypeError when
  the payload is no dict.
\<close>

fun subscript :: "json \<Rightarrow> string \<Rightarrow> py_exception + json" where
  "subscript (JDict kvs) k = (case map_of kvs k of None \<Rightarrow> Inl KeyError | Some v \<Rightarrow> Inr v)"
| "subscript _ k = Inl TypeError"

section \<open>The local file system\<close>

text \<open>
  The local file system is a tree: a file with its content, or a directory with its
  entries by name, in the order the directory lists them. A file holds bytes or, for the
  archive zipfile writes, the archive's entries (internal path and content). The model
  has no symbolic links and no permissions, and a component \<open>..\<close> is an ordinary name.
\<close>

datatype content = Bytes string | Archive "(path \<times> content) list"

datatype node = File content | Dir "(string \<times> node) list"

fun fs_lookup :: "node \<Rightarrow> path \<Rightarrow> node option" where
  "fs_lookup n [] = Some n"
| "fs_lookup (File c) (x # p) = None"
| "fs_lookup (Dir kids) (x # p) =
     (case map_of kids x of None \<Rightarrow> None | Some k \<Rightarrow> fs_lookup k p)"

definition fs_exists :: "node \<Rightarrow> path \<Rightarrow> bool" where
  "fs_exists fs p = (fs_lookup fs p \<noteq> None)"

definition is_dir :: "node \<Rightarrow> path \<Rightarrow> bool" where
  "is_dir fs p = (case fs_lookup fs p of Some (Dir kids) \<Rightarrow> True | _ \<Rightarrow> False)"

definition is_file :: "node \<Rightarrow> path \<Rightarrow> bool" where
  "is_file fs p = (case fs_lookup fs p of Some (File c) \<Rightarrow> True | _ \<Rightarrow> False)"

text \<open>
  \<open>fs_put\<close> writes a node at a path whose parent is a directory, replacing what is
  there; \<open>fs_remove\<close> removes the node at a path with everything below it.
\<close>

fun fs_put :: "node \<Rightarrow> path \<Rightarrow> node \<Rightarrow> node" where
  "fs_put n [] new = new"
| "fs_put (File c) (x # p) new = File c"
| "fs_put (Dir kids) (x # p) new =
     (case map_of kids x of
        None \<Rightarrow> (if p = [] then Dir (AList.update x new kids) else Dir kids)
      | Some k \<Rightarrow> Dir (AList.update x (fs_put k p new) kids))"

fun fs_remove :: "node \<Rightarrow> path \<Rightarrow> node" where
  "fs_remove n [] = n"
| "fs_remove (File c) (x # p) = File c"
| "fs_remove (Dir kids) (x # p) =
     (if p = [] then Dir (AList.delete x kids)
      else (case map_of kids x of
              None \<Rightarrow> Dir kids
            | Some k \<Rightarrow> Dir (AList.update x (fs_remove k p) kids)))"

text \<open>
  \<open>p.mkdir(parents=True, exist_ok=True)\<close>: missing directories are created along the
  path; FileExistsError when the path is a file, NotADirectoryError when a file stands
  on the way.
\<close>

fun mkdir_parents :: "node \<Rightarrow> path \<Rightarrow> py_exception + node" where
  "mkdir_parents (File c) [] = Inl FileExistsError"
| "mkdir_parents (Dir kids) [] = Inr (Dir kids)"
| "mkdir_parents (File c) (x # p) = Inl NotADirectoryError"
| "mkdir_parents (Dir kids) (x # p) =
     (case map_of kids x of
        None \<Rightarrow>
          (case mkdir_parents (Dir []) p of
             Inl e \<Rightarrow> Inl e
           | Inr d \<Rightarrow> Inr (Dir (AList.update x d kids)))
      | Some k \<Rightarrow>
          (case mkdir_parents k p of
             Inl e \<Rightarrow> Inl e
           | Inr k' \<Rightarrow> Inr (Dir (AList.update x k' kids))))"

text \<open>\<open>p.mkdir(parents=True)\<close>: as above, but an existing path raises FileExistsError.\<close>

definition mkdir_new :: "node \<Rightarrow> path \<Rightarrow> py_exception + node" where
  "mkdir_new fs p = (if fs_exists fs p then Inl FileExistsError else mkdir_parents fs p)"

text \<open>
  \<open>shutil.move(src, dst)\<close>: a destination that is a directory receives the source under
  the source's own name, unless that name is taken there; otherwise the source is renamed
  to the destination, replacing a file that stands there. The rename fails when the
  source is missing, when the destination's parent is no directory, when a directory
  would replace a file, and when a directory would move into itself.
\<close>

definition basename :: "path \<Rightarrow> string" where
  "basename p = (if p = [] then [] else last p)"

definition shutil_move :: "node \<Rightarrow> path \<Rightarrow> path \<Rightarrow> py_exception + node" where
  "shutil_move fs src dst =
     (let real_dst = (if is_dir fs dst then dst @ [basename src] else dst) in
      if is_dir fs dst \<and> fs_exists fs real_dst then Inl ShutilError
      else (case fs_lookup fs src of
              None \<Rightarrow> Inl FileNotFoundError
            | Some n \<Rightarrow>
                if src = real_dst then Inr fs
                else if prefix src real_dst then Inl ShutilError
                else if \<not> is_dir fs (butlast real_dst) then Inl FileNotFoundError
                else if is_dir fs src \<and> fs_exists fs real_dst then Inl NotADirectoryError
                else Inr (fs_put (fs_remove fs src) real_dst n)))"

text \<open>
  The files \<open>rglob('*')\<close> yields below a directory, filtered by \<open>is_file()\<close>,
  each with its path relative to the directory: the entries of the directory itself
  come first, then those of each of its directories in turn.
\<close>

fun rglob_files :: "node \<Rightarrow> (path \<times> content) list" where
  "rglob_files (File c) = []"
| "rglob_files (Dir kids) =
     concat (map (\<lambda>(x, k). case k of File c \<Rightarrow> [([x], c)] | Dir sub \<Rightarrow> []) kids)
     @ concat (map (\<lambda>(x, k). map (\<lambda>(p, c). (x # p, c)) (rglob_files k)) kids)"

section \<open>IpaBuilder\<close>

text \<open>
  The state of an IpaBuilder object together with the part of the world it acts on.
  \<open>ssh_client\<close> is None or a client whose transport is absent, inactive or active.
  \<open>fs\<close> is the local file system; \<open>connect_plan\<close> lists the outcomes of the coming
  connection attempts (an attempt with no outcome left fails); \<open>posix\<close> tells whether
  the program runs on a POSIX system (\<open>os.name\<close> is not \<open>nt\<close>); \<open>protected\<close>
  names the files of the staging directory that \<open>unlink\<close> refuses to remove
  (read-only files, where the system minds).
\<close>

datatype link = NoTransport | Inactive | Active

record builder =
  output_dir :: path
  file_dict :: "(string \<times> string) list"
  finished :: bool
  ssh_client :: "link option"
  ssh_config :: "SSHConfig option"
  fs :: node
  connect_plan :: "bool list"
  posix :: bool
  protected :: "string list"

definition payload_dir :: "builder \<Rightarrow> path" where
  "payload_dir b = output_dir b @ [''Payload'']"

text \<open>
  A method that may raise returns the events it caused, the exception it raised (None
  when it returned) and the state it left: what was changed before a raise stays changed.
\<close>

type_synonym outcome = "event list \<times> py_exception option \<times> builder"

text \<open>
  \<open>_create_ssh_connection\<close> (lines 58-76): a fresh client replaces the old one, then
  connects; a failure is logged and raised again.
\<close>

definition create_ssh_connection :: "builder \<Rightarrow> outcome" where
  "create_ssh_connection b =
     (let b1 = b\<lparr>ssh_client := Some NoTransport\<rparr> in
      case ssh_config b of
        None \<Rightarrow> ([LogError ''SSH connection failed''], Some AttributeError, b1)
      | Some cfg \<Rightarrow>
          (case connect_plan b of
             [] \<Rightarrow> ([Connect, LogError ''SSH connection failed''], Some SSHException, b1)
           | ok # rest \<Rightarrow>
               if ok then
                 ([Connect, LogInfo ''SSH connection established successfully''], None,
                  b1\<lparr>ssh_client := Some Active, connect_plan := rest\<rparr>)
               else
                 ([Connect, LogError ''SSH connection failed''], Some SSHException,
                  b1\<lparr>connect_plan := rest\<rparr>)))"

definition connect_ssh :: "builder \<Rightarrow> SSHConfig \<Rightarrow> outcome" where
  "connect_ssh b config = create_ssh_connection (b\<lparr>ssh_config := Some config\<rparr>)"

text \<open>
  \<open>_ensure_ssh_connection\<close> (lines 78-86): nothing happens on an active transport;
  otherwise the connection is created again, and once more when that attempt raises.
\<close>

definition ensure_ssh_connection :: "builder \<Rightarrow> outcome" where
  "ensure_ssh_connection b =
     (if ssh_client b = Some Active then ([], None, b)
      else (case create_ssh_connection b of
              (ev, None, b1) \<Rightarrow> (LogInfo ''Reconnecting SSH...'' # ev, None, b1)
            | (ev, Some e, b1) \<Rightarrow>
                (case create_ssh_connection b1 of
                   (ev2, r, b2) \<Rightarrow>
                     (LogInfo ''Reconnecting SSH...'' # ev
                        @ LogError ''Error checking SSH connection'' # ev2, r, b2))))"

text \<open>
  The progress callback \<open>update_progress\<close> that \<open>on_message\<close> defines and hands to the
  handlers (lines 191-194). scp calls it with the name of the file it is receiving, a
  str or bytes; \<open>Path(filename)\<close> raises TypeError on bytes. The callback raises
  nothing else.
\<close>

datatype fname = StrName string | BytesName string

definition update_progress :: "fname \<Rightarrow> py_exception option" where
  "update_progress filename =
     (case filename of StrName s \<Rightarrow> None | BytesName s \<Rightarrow> Some TypeError)"

text \<open>
  Opening the channel of an SCP client over the builder's transport, as entering
  \<open>with SCPClient(self.ssh_client.get_transport(), ...) as scp\<close> does and as
  \<open>scp.get\<close> does again: it raises when there is no client, no transport or no active
  transport.
\<close>

definition scp_open :: "builder \<Rightarrow> py_exception option" where
  "scp_open b =
     (case ssh_client b of
        None \<Rightarrow> Some AttributeError
      | Some NoTransport \<Rightarrow> Some AttributeError
      | Some Inactive \<Rightarrow> Some SSHException
      | Some Active \<Rightarrow> None)"

text \<open>
  What the remote side answers to one transfer: it refuses (nothing is sent), it sends a
  file or a directory tree and then the transfer breaks, or it sends all of a file or a
  directory tree.
\<close>

datatype scp_outcome = ScpFails | Broken node | Fetched node

text \<open>
  scp receives a tree as a sequence of steps: entering a directory, which is created
  unless the path exists, and writing a file, which is created empty, announced to the
  progress callback and then filled. A step that the local file system refuses, and a
  callback that raises, end the transfer with what was written so far.
\<close>

datatype recv_op = PushDir path | WriteFile path content

fun recv_ops :: "path \<Rightarrow> node \<Rightarrow> recv_op list" where
  "recv_ops p (File c) = [WriteFile p c]"
| "recv_ops p (Dir kids) = PushDir p # concat (map (\<lambda>(x, k). recv_ops (p @ [x]) k) kids)"

fun receive ::
  "(fname \<Rightarrow> py_exception option) \<Rightarrow> (path \<Rightarrow> fname) \<Rightarrow> node \<Rightarrow> recv_op list
     \<Rightarrow> py_exception option \<times> node" where
  "receive progress shown t [] = (None, t)"
| "receive progress shown t (PushDir p # ops) =
     (if fs_exists t p then receive progress shown t ops
      else if is_dir t (butlast p) then receive progress shown (fs_put t p (Dir [])) ops
      else (Some OSError, t))"
| "receive progress shown t (WriteFile p c # ops) =
     (if is_dir t p \<or> \<not> is_dir t (butlast p) then (Some OSError, t)
      else (case progress (shown p) of
              Some e \<Rightarrow> (Some e, fs_put t p (File (Bytes [])))
            | None \<Rightarrow> receive progress shown (fs_put t p (File c)) ops))"

text \<open>
  \<open>scp.get(remote, str(self.payload_dir / ''), recursive=...)\<close> with a progress
  callback. The channel is opened first; then the transfer is issued. What arrives is
  written below the staging directory under the last component of the remote path, or,
  when the staging path is no directory, as the staging path itself. The callback gets
  the name as bytes on a POSIX system, except for a file written as the staging path
  itself, and as str on Windows. The transfer is taken to be refused when a directory
  answers a transfer that is not recursive, and when the last component of the remote
  path is empty or \<open>..\<close>.
\<close>

definition scp_get ::
  "builder \<Rightarrow> (fname \<Rightarrow> py_exception option) \<Rightarrow> scp_outcome \<Rightarrow> string \<Rightarrow> bool \<Rightarrow> outcome" where
  "scp_get b progress oc remote recursive =
     (case scp_open b of
        Some e \<Rightarrow> ([], Some e, b)
      | None \<Rightarrow>
          (let rename = \<not> is_dir (fs b) (payload_dir b);
               target = (if rename then payload_dir b else payload_dir b @ [path_name remote]);
               shown = (\<lambda>p. if posix b \<and> \<not> (rename \<and> p = target) then BytesName (basename p)
                            else StrName (basename p));
               refused = (\<lambda>n. ((case n of Dir kids \<Rightarrow> True | File c \<Rightarrow> False) \<and> \<not> recursive)
                            \<or> (\<not> rename \<and> (path_name remote = [] \<or> path_name remote = ''..'')))
           in case oc of
                ScpFails \<Rightarrow> ([Transfer remote recursive], Some SCPException, b)
              | Broken n \<Rightarrow>
                  if refused n then ([Transfer remote recursive], Some SCPException, b)
                  else (case receive progress shown (fs b) (recv_ops target n) of
                          (Some e, t) \<Rightarrow> ([Transfer remote recursive], Some e, b\<lparr>fs := t\<rparr>)
                        | (None, t) \<Rightarrow>
                            ([Transfer remote recursive], Some SCPException, b\<lparr>fs := t\<rparr>))
              | Fetched n \<Rightarrow>
                  if refused n then ([Transfer remote recursive], Some SCPException, b)
                  else (case receive progress shown (fs b) (recv_ops target n) of
                          (r, t) \<Rightarrow> ([Transfer remote recursive], r, b\<lparr>fs := t\<rparr>))))"

text \<open>
  The body of the inner \<open>try\<close> of \<open>_handle_dump_payload\<close>, the same in both
  definitions of the method (lines 93-95 and 211-213). A remote path that is no string
  makes the transfer raise TypeError before it is issued.
\<close>

definition dump_transfer ::
  "builder \<Rightarrow> json \<Rightarrow> (fname \<Rightarrow> py_exception option) \<Rightarrow> scp_outcome \<Rightarrow> outcome" where
  "dump_transfer b payload progress_callback oc =
     (case subscript payload ''dump'' of
        Inl e \<Rightarrow> ([], Some e, b)
      | Inr (JStr remote) \<Rightarrow>
          (case scp_get b progress_callback oc remote False of
             (ev, Some e, b1) \<Rightarrow> (ev, Some e, b1)
           | (ev, None, b1) \<Rightarrow>
               (case subscript payload ''path'' of
                  Inl e \<Rightarrow> (ev, Some e, b1)
                | Inr (JStr p) \<Rightarrow>
                    (let index = str_find p ''.app/'' in
                     (ev, None,
                      b1\<lparr>file_dict :=
                           AList.update (path_name remote) (slice_from p (index + 5))
                             (file_dict b1)\<rparr>))
                | Inr _ \<Rightarrow> (ev, Some AttributeError, b1)))
      | Inr _ \<Rightarrow> ([], Some TypeError, b))"

text \<open>The body of the inner \<open>try\<close> of \<open>_handle_app_payload\<close> (lines 107-108, 220-221).\<close>

definition app_transfer ::
  "builder \<Rightarrow> json \<Rightarrow> (fname \<Rightarrow> py_exception option) \<Rightarrow> scp_outcome \<Rightarrow> outcome" where
  "app_transfer b payload progress_callback oc =
     (case subscript payload ''app'' of
        Inl e \<Rightarrow> ([], Some e, b)
      | Inr (JStr remote) \<Rightarrow>
          (case scp_get b progress_callback oc remote True of
             (ev, Some e, b1) \<Rightarrow> (ev, Some e, b1)
           | (ev, None, b1) \<Rightarrow>
               (ev, None,
                b1\<lparr>file_dict := AList.update ''app'' (path_name remote) (file_dict b1)\<rparr>))
      | Inr _ \<Rightarrow> ([], Some TypeError, b))"

text \<open>
  The class body defines \<open>_handle_dump_payload\<close> and \<open>_handle_app_payload\<close> twice.
  Python binds a name of a class body to its last definition, so the methods that run
  are those of lines 208-223. Their \<open>with\<close> statement stands outside the \<open>try\<close>:
  what opening the channel raises leaves the method; what the transfer raises is logged.
\<close>

definition handle_dump_payload ::
  "builder \<Rightarrow> json \<Rightarrow> (fname \<Rightarrow> py_exception option) \<Rightarrow> scp_outcome \<Rightarrow> outcome" where
  "handle_dump_payload b payload progress_callback oc =
     (case scp_open b of
        Some e \<Rightarrow> ([], Some e, b)
      | None \<Rightarrow>
          (case dump_transfer b payload progress_callback oc of
             (ev, None, b1) \<Rightarrow> (ev, None, b1)
           | (ev, Some e, b1) \<Rightarrow>
               (ev @ [LogError ''Failed to handle dump payload''], None, b1)))"

definition handle_app_payload ::
  "builder \<Rightarrow> json \<Rightarrow> (fname \<Rightarrow> py_exception option) \<Rightarrow> scp_outcome \<Rightarrow> outcome" where
  "handle_app_payload b payload progress_callback oc =
     (case scp_open b of
        Some e \<Rightarrow> ([], Some e, b)
      | None \<Rightarrow>
          (case app_transfer b payload progress_callback oc of
             (ev, None, b1) \<Rightarrow> (ev, None, b1)
           | (ev, Some e, b1) \<Rightarrow>
               (ev @ [LogError ''Failed to handle app payload''], None, b1)))"

text \<open>
  The first definitions of the two methods (lines 88-113), which the later ones replace:
  they call \<open>_ensure_ssh_connection\<close> before the \<open>with\<close> statement, inside an outer
  \<open>try\<close>; a failure of the transfer is logged, raised again and logged once more.
\<close>

definition handle_dump_payload_shadowed ::
  "builder \<Rightarrow> json \<Rightarrow> (fname \<Rightarrow> py_exception option) \<Rightarrow> scp_outcome \<Rightarrow> outcome" where
  "handle_dump_payload_shadowed b payload progress_callback oc =
     (case ensure_ssh_connection b of
        (ev, Some e, b1) \<Rightarrow> (ev @ [LogError ''Failed to handle dump payload''], None, b1)
      | (ev, None, b1) \<Rightarrow>
          (case scp_open b1 of
             Some e \<Rightarrow> (ev @ [LogError ''Failed to handle dump payload''], None, b1)
           | None \<Rightarrow>
               (case dump_transfer b1 payload progress_callback oc of
                  (ev2, None, b2) \<Rightarrow> (ev @ ev2, None, b2)
                | (ev2, Some e, b2) \<Rightarrow>
                    (ev @ ev2 @ [LogError ''Failed to transfer file'',
                                 LogError ''Failed to handle dump payload''], None, b2))))"

definition handle_app_payload_shadowed ::
  "builder \<Rightarrow> json \<Rightarrow> (fname \<Rightarrow> py_exception option) \<Rightarrow> scp_outcome \<Rightarrow> outcome" where
  "handle_app_payload_shadowed b payload progress_callback oc =
     (case ensure_ssh_connection b of
        (ev, Some e, b1) \<Rightarrow> (ev @ [LogError ''Failed to handle app payload''], None, b1)
      | (ev, None, b1) \<Rightarrow>
          (case scp_open b1 of
             Some e \<Rightarrow> (ev @ [LogError ''Failed to handle app payload''], None, b1)
           | None \<Rightarrow>
               (case app_transfer b1 payload progress_callback oc of
                  (ev2, None, b2) \<Rightarrow> (ev @ ev2, None, b2)
                | (ev2, Some e, b2) \<Rightarrow>
                    (ev @ ev2 @ [LogError ''Failed to transfer app'',
                                 LogError ''Failed to handle app payload''], None, b2))))"

text \<open>
  \<open>on_message\<close> (lines 175-206). The handler returns in every case: what the
  \<open>try\<close> block raises is caught and logged.
\<close>

definition caught :: "outcome \<Rightarrow> event list \<times> builder" where
  "caught r =
     (case r of
        (ev, None, b) \<Rightarrow> (ev, b)
      | (ev, Some e, b) \<Rightarrow> (ev @ [LogError ''Error handling message''], b))"

definition on_message :: "builder \<Rightarrow> message \<Rightarrow> scp_outcome \<Rightarrow> event list \<times> builder" where
  "on_message b m oc =
     (if dict_get m ''type'' = JStr ''error'' then ([LogError ''Frida Script Error''], b)
      else
        (let payload = dict_get m ''payload'' in
         if \<not> truthy payload then ([], b)
         else if is_log_payload payload then ([LogInfo ''[JavaScript Log]''], b)
         else
           (case py_in ''dump'' payload of
              Inl e \<Rightarrow> caught ([], Some e, b)
            | Inr True \<Rightarrow> caught (handle_dump_payload b payload update_progress oc)
            | Inr False \<Rightarrow>
                (case py_in ''app'' payload of
                   Inl e \<Rightarrow> caught ([], Some e, b)
                 | Inr True \<Rightarrow> caught (handle_app_payload b payload update_progress oc)
                 | Inr False \<Rightarrow>
                     (case py_in ''done'' payload of
                        Inl e \<Rightarrow> caught ([], Some e, b)
                      | Inr True \<Rightarrow> ([], b\<lparr>finished := True\<rparr>)
                      | Inr False \<Rightarrow> ([], b))))))"

text \<open>
  \<open>create_directories\<close> (lines 163-168): the output directory is created when missing,
  an existing staging directory is removed with its content, and the staging directory is
  created anew. A staging path that is a file makes the removal raise.
\<close>

definition create_directories :: "builder \<Rightarrow> py_exception option \<times> builder" where
  "create_directories b =
     (case mkdir_parents (fs b) (output_dir b) of
        Inl e \<Rightarrow> (Some e, b)
      | Inr fs1 \<Rightarrow>
          (if is_file fs1 (payload_dir b) then (Some NotADirectoryError, b\<lparr>fs := fs1\<rparr>)
           else
             (let fs2 = (if fs_exists fs1 (payload_dir b) then fs_remove fs1 (payload_dir b)
                         else fs1)
              in case mkdir_new fs2 (payload_dir b) of
                   Inl e \<Rightarrow> (Some e, b\<lparr>fs := fs2\<rparr>)
                 | Inr fs3 \<Rightarrow> (None, b\<lparr>fs := fs3\<rparr>))))"

section \<open>Assembly\<close>

text \<open>
  The loop of \<open>generate_ipa\<close> over \<open>self.file_dict.items()\<close> (lines 235-239), in
  insertion order. A raise ends the loop and leaves the moves made so far in place.
\<close>

fun move_artifacts ::
  "path \<Rightarrow> string \<Rightarrow> (string \<times> string) list \<Rightarrow> node \<Rightarrow> py_exception option \<times> node" where
  "move_artifacts pd app_name [] tree = (None, tree)"
| "move_artifacts pd app_name ((key, val) # rest) tree =
     (if key \<noteq> ''app'' then
        (let target_path = path_join (path_join pd app_name) val in
         case mkdir_parents tree (butlast target_path) of
           Inl e \<Rightarrow> (Some e, tree)
         | Inr tree1 \<Rightarrow>
             (case shutil_move tree1 (path_join pd key) target_path of
                Inl e \<Rightarrow> (Some e, tree1)
              | Inr tree2 \<Rightarrow> move_artifacts pd app_name rest tree2))
      else move_artifacts pd app_name rest tree)"

text \<open>
  \<open>zipf.write(file_path, file_path.relative_to(self.payload_dir.parent))\<close> for the files
  found below the bundle folder (lines 246-248); \<open>acc\<close> holds the entries written so
  far, which stay in the archive when \<open>relative_to\<close> raises.
\<close>

fun zip_write_all ::
  "path \<Rightarrow> path \<Rightarrow> (path \<times> content) list \<Rightarrow> (path \<times> content) list
     \<Rightarrow> py_exception option \<times> (path \<times> content) list" where
  "zip_write_all app_folder base [] acc = (None, acc)"
| "zip_write_all app_folder base ((p, c) # rest) acc =
     (case relative_to (app_folder @ p) base of
        Inl e \<Rightarrow> (Some e, acc)
      | Inr arcname \<Rightarrow> zip_write_all app_folder base rest (acc @ [(arcname, c)]))"

text \<open>
  \<open>zipfile.ZipFile(ipa_path, 'w', ...)\<close> and the loop inside it (lines 245-248): the
  archive file is created empty (which raises when its directory is missing or when the
  path is a directory), then receives the entries.
\<close>

definition write_archive :: "node \<Rightarrow> path \<Rightarrow> path \<Rightarrow> path \<Rightarrow> py_exception option \<times> node" where
  "write_archive tree ipa_path app_folder base =
     (if \<not> is_dir tree (butlast ipa_path) then (Some FileNotFoundError, tree)
      else if is_dir tree ipa_path then (Some IsADirectoryError, tree)
      else
        (let tree1 = fs_put tree ipa_path (File (Archive [])) in
         case fs_lookup tree1 app_folder of
           None \<Rightarrow> (None, tree1)
         | Some n \<Rightarrow>
             (case zip_write_all app_folder base (rglob_files n) [] of
                (r, entries) \<Rightarrow> (r, fs_put tree1 ipa_path (File (Archive entries))))))"

definition ipa_path_of :: "builder \<Rightarrow> string \<Rightarrow> path" where
  "ipa_path_of b display_name = path_join (output_dir b) (display_name @ ''.ipa'')"

text \<open>The \<open>try\<close> block of \<open>generate_ipa\<close> (lines 228-250).\<close>

definition assemble :: "builder \<Rightarrow> string \<Rightarrow> outcome" where
  "assemble b display_name =
     (case map_of (file_dict b) ''app'' of
        None \<Rightarrow> ([LogInfo ''Generating IPA''], Some RuntimeError, b)
      | Some app_name \<Rightarrow>
          if app_name = [] then ([LogInfo ''Generating IPA''], Some RuntimeError, b)
          else
            (case move_artifacts (payload_dir b) app_name (file_dict b) (fs b) of
               (Some e, fs1) \<Rightarrow> ([LogInfo ''Generating IPA''], Some e, b\<lparr>fs := fs1\<rparr>)
             | (None, fs1) \<Rightarrow>
                 (let app_folder = path_join (payload_dir b) app_name in
                  if \<not> fs_exists fs1 app_folder \<or> \<not> is_dir fs1 app_folder
                  then ([LogInfo ''Generating IPA''], Some RuntimeError, b\<lparr>fs := fs1\<rparr>)
                  else
                    (case write_archive fs1 (ipa_path_of b display_name) app_folder
                            (butlast (payload_dir b)) of
                       (Some e, fs2) \<Rightarrow> ([LogInfo ''Generating IPA''], Some e, b\<lparr>fs := fs2\<rparr>)
                     | (None, fs2) \<Rightarrow>
                         ([LogInfo ''Generating IPA'', LogInfo ''IPA generated successfully''],
                          None, b\<lparr>fs := fs2\<rparr>)))))"

text \<open>
  The \<open>finally\<close> block of \<open>generate_ipa\<close> (lines 254-263), entry by entry: a
  directory whose name ends with \<open>.app\<close> is skipped; a file is unlinked, which raises
  for a protected file, and then the failure is logged and the file stays; any other
  directory is removed by \<open>shutil.rmtree\<close> with \<open>_force_remove\<close>, which lifts the
  protection of what refuses to go and removes it.
\<close>

fun purge_items :: "string list \<Rightarrow> (string \<times> node) list \<Rightarrow> event list \<times> (string \<times> node) list" where
  "purge_items ro [] = ([], [])"
| "purge_items ro ((x, k) # items) =
     (case purge_items ro items of
        (ev, kept) \<Rightarrow>
          (case k of
             Dir kids \<Rightarrow> if endswith x ''.app'' then (ev, (x, k) # kept) else (ev, kept)
           | File c \<Rightarrow>
               if x \<in> set ro then (LogError ''Failed to clean up'' # ev, (x, k) # kept)
               else (ev, kept)))"

text \<open>Listing a staging directory that does not exist raises, out of the method.\<close>

definition purge_staging :: "builder \<Rightarrow> outcome" where
  "purge_staging b =
     (case fs_lookup (fs b) (payload_dir b) of
        None \<Rightarrow> ([], Some FileNotFoundError, b)
      | Some (File c) \<Rightarrow> ([], Some NotADirectoryError, b)
      | Some (Dir kids) \<Rightarrow>
          (case purge_items (protected b) kids of
             (ev, kept) \<Rightarrow> (ev, None, b\<lparr>fs := fs_put (fs b) (payload_dir b) (Dir kept)\<rparr>)))"

text \<open>
  \<open>generate_ipa\<close> (lines 225-263): what the \<open>try\<close> block raises is logged and
  dropped; the \<open>finally\<close> block runs in every case, and only what it raises leaves the
  method.
\<close>

definition generate_ipa :: "builder \<Rightarrow> string \<Rightarrow> outcome" where
  "generate_ipa b display_name =
     (case assemble b display_name of
        (ev, r, b1) \<Rightarrow>
          (case purge_staging b1 of
             (ev2, r2, b2) \<Rightarrow>
               (ev @ (case r of None \<Rightarrow> [] | Some e \<Rightarrow> [LogError ''Failed to generate IPA''])
                @ ev2, r2, b2)))"

section \<open>The dump\<close>

text \<open>
  One message as the handler meets it: the second, counted from the start of the bounded
  wait, at which its handling ends (0 for a message handled before the wait begins);
  whether the device dropped the idle connection before the message; the message; and
  what the remote side answers to the transfer the message may start.
\<close>

record delivery =
  arrival :: nat
  link_drops :: bool
  msg :: message
  answer :: scp_outcome

definition deliver :: "builder \<Rightarrow> delivery \<Rightarrow> event list \<times> builder" where
  "deliver b d =
     on_message
       (if link_drops d \<and> ssh_client b = Some Active then b\<lparr>ssh_client := Some Inactive\<rparr>
        else b)
       (msg d) (answer d)"

text \<open>
  The message thread up to the moment \<open>self.finished.wait(timeout=limit)\<close> returns:
  messages are handled one at a time, in order, until the completion signal is set;
  a message handled after the deadline plays no part in the wait.
\<close>

fun pump :: "nat \<Rightarrow> builder \<Rightarrow> delivery list \<Rightarrow> event list \<times> builder" where
  "pump limit b [] = ([], b)"
| "pump limit b (d # ds) =
     (if finished b then ([], b)
      else if limit < arrival d then pump limit b ds
      else (case deliver b d of
              (ev, b1) \<Rightarrow> (case pump limit b1 ds of (ev2, b2) \<Rightarrow> (ev @ ev2, b2))))"

text \<open>
  What the device and the instrumentation runtime do in one run: the outcome of
  \<open>get_usb_iphone\<close> with the applications the device lists (its retries and prompts
  are taken as done), what spawning and attaching raise, what reading and loading the
  script raise, the messages of the script, and whether detaching raises. The fields
  \<open>identifier\<close>, \<open>name\<close> and \<open>pid\<close> of an application carry the prefix
  \<open>info_\<close> here.
\<close>

record app_info =
  info_identifier :: string
  info_name :: string
  info_pid :: nat

record run_env =
  usb_iphone :: "py_exception + app_info list"
  attach_raises :: "py_exception option"
  script_raises :: "py_exception option"
  deliveries :: "delivery list"
  detach_raises :: bool

definition wait_timeout :: nat where
  "wait_timeout = 7200"

text \<open>
  The part of the \<open>try\<close> block of \<open>dump_app\<close> from \<open>create_directories\<close> on
  (lines 297-319). The result carries the exception raised, if any, and the value of
  \<open>success\<close>.
\<close>

definition dump_session ::
  "run_env \<Rightarrow> builder \<Rightarrow> string \<Rightarrow> event list \<times> py_exception option \<times> bool \<times> builder" where
  "dump_session env b display_name =
     (case create_directories b of
        (Some e, b1) \<Rightarrow> ([LogInfo ''Starting dump process''], Some e, False, b1)
      | (None, b1) \<Rightarrow>
          (case script_raises env of
             Some e \<Rightarrow> ([LogInfo ''Starting dump process''], Some e, False, b1)
           | None \<Rightarrow>
               (case pump wait_timeout b1 (deliveries env) of
                  (ev, b2) \<Rightarrow>
                    if \<not> finished b2 then
                      ([LogInfo ''Starting dump process'',
                        LogInfo ''Dumping application contents...'',
                        LogInfo ''Waiting for the dump to complete...''] @ ev,
                       Some TimeoutError, False, b2)
                    else
                      (case generate_ipa b2 display_name of
                         (ev2, Some e, b3) \<Rightarrow>
                           ([LogInfo ''Starting dump process'',
                             LogInfo ''Dumping application contents...'',
                             LogInfo ''Waiting for the dump to complete...''] @ ev
                            @ [LogInfo ''Dump operation completed successfully'',
                               LogInfo ''Creating IPA file...''] @ ev2,
                            Some e, False, b3)
                       | (ev2, None, b3) \<Rightarrow>
                           ([LogInfo ''Starting dump process'',
                             LogInfo ''Dumping application contents...'',
                             LogInfo ''Waiting for the dump to complete...''] @ ev
                            @ [LogInfo ''Dump operation completed successfully'',
                               LogInfo ''Creating IPA file...''] @ ev2
                            @ [LogInfo ''Dump completed successfully'',
                               LogInfo ''Output location''],
                            None, True, b3)))))"

text \<open>
  The \<open>try\<close> block of \<open>dump_app\<close> (lines 273-319). The result carries the exception
  raised, whether a session was attached, and \<open>success\<close>. The early
  \<open>return False\<close> of line 295 leaves \<open>success\<close> False and raises nothing.
\<close>

definition dump_try ::
  "run_env \<Rightarrow> builder \<Rightarrow> string
     \<Rightarrow> event list \<times> py_exception option \<times> bool \<times> bool \<times> builder" where
  "dump_try env b ident =
     (case usb_iphone env of
        Inl e \<Rightarrow> ([LogInfo ''Searching for USB-connected iPhone...''], Some e, False, False, b)
      | Inr apps \<Rightarrow>
          (case find (\<lambda>a. ident = info_identifier a \<or> ident = info_name a) apps of
             None \<Rightarrow>
               ([LogInfo ''Searching for USB-connected iPhone...'',
                 LogInfo ''Scanning for target application...'',
                 LogError ''Application not found''], None, False, False, b)
           | Some a \<Rightarrow>
               (case attach_raises env of
                  Some e \<Rightarrow>
                    ([LogInfo ''Searching for USB-connected iPhone...'',
                      LogInfo ''Scanning for target application...'',
                      LogInfo ''Found application'',
                      LogInfo (if info_pid a = 0 then ''Launching application...''
                               else ''Attaching to running application...'')],
                     Some e, False, False, b)
                | None \<Rightarrow>
                    (case dump_session env b (info_name a) of
                       (ev, r, success, b1) \<Rightarrow>
                         ([LogInfo ''Searching for USB-connected iPhone...'',
                           LogInfo ''Scanning for target application...'',
                           LogInfo ''Found application'',
                           LogInfo (if info_pid a = 0 then ''Launching application...''
                                    else ''Attaching to running application...'')] @ ev,
                          r, True, success, b1)))))"

text \<open>
  \<open>dump_app\<close> (lines 266-346). The \<open>finally\<close> block detaches an attached session
  (what detaching raises is dropped), prints the summary and ends with
  \<open>return success\<close>: a \<open>return\<close> inside \<open>finally\<close> discards the exception in
  flight, so the method returns in every case. The result keeps the discarded exception
  beside the returned value.
\<close>

definition dump_app ::
  "run_env \<Rightarrow> builder \<Rightarrow> string \<Rightarrow> event list \<times> py_exception option \<times> bool \<times> builder" where
  "dump_app env b ident =
     (case dump_try env b ident of
        (ev, r, session, success, b1) \<Rightarrow>
          (ev
           @ (if session then
                (if detach_raises env then [Detach]
                 else [Detach, LogInfo ''Cleaned up session''])
              else [])
           @ [Summary success],
           r, success, b1))"

section \<open>The command line\<close>

record args =
  target :: string
  arg_host :: string
  arg_port :: int
  arg_user :: string
  arg_password :: "string option"
  arg_key_file :: "string option"
  arg_output :: "string option"

text \<open>
  The machine the program starts on: the home directory, the working directory, the
  local file system, the outcomes of the connection attempts, whether the system is a
  POSIX one, and the names of the protected files of the staging directory.
\<close>

record machine =
  home :: path
  cwd :: path
  disk :: node
  plan :: "bool list"
  os_posix :: bool
  read_only :: "string list"

text \<open>\<open>IpaBuilder.__init__\<close> (lines 43-51).\<close>

definition IpaBuilder_init :: "machine \<Rightarrow> string option \<Rightarrow> builder" where
  "IpaBuilder_init w out =
     \<lparr>output_dir =
        (case out of
           None \<Rightarrow> home w @ [''Downloads'', ''ios_dumps'']
         | Some s \<Rightarrow> if s = [] then home w @ [''Downloads'', ''ios_dumps'']
                     else path_join (cwd w) s),
      file_dict = [], finished = False, ssh_client = None, ssh_config = None,
      fs = disk w, connect_plan = plan w, posix = os_posix w, protected = read_only w\<rparr>"

text \<open>
  \<open>main\<close> (lines 402-431): the events of the run and the exit status of the process.
  \<open>parser.error\<close> ends the process with status 2; an exception that reaches the top
  and \<open>sys.exit(1)\<close> end it with status 1.
\<close>

definition main :: "machine \<Rightarrow> run_env \<Rightarrow> args \<Rightarrow> event list \<times> nat" where
  "main w env a =
     (if \<not> truthy_opt (arg_password a) \<and> \<not> truthy_opt (arg_key_file a) then ([UsageError], 2)
      else
        (case SSHConfig_init (arg_host a) (arg_port a) (arg_user a) (arg_password a)
                (arg_key_file a) of
           Inl e \<Rightarrow> ([], 1)
         | Inr config \<Rightarrow>
             (case connect_ssh (IpaBuilder_init w (arg_output a)) config of
                (ev, Some e, b) \<Rightarrow>
                  (LogInfo ''Establishing SSH connection...'' # ev
                   @ [LogError ''Fatal error during dump process''], 1)
              | (ev, None, b) \<Rightarrow>
                  (case dump_app env b (target a) of
                     (ev2, r, success, b1) \<Rightarrow>
                       (LogInfo ''Establishing SSH connection...'' # ev @ ev2,
                        if success then 0 else 1)))))"

section \<open>The message classes of the specification\<close>






fun spec_field :: "string \<Rightarrow> json \<Rightarrow> bool" where
  "spec_field k (JDict kvs) = (k \<in> fst ` set kvs)"
| "spec_field k (JStr s) = sublist k s"
| "spec_field k (JList xs) = (JStr k \<in> set xs)"
| "spec_field k _ = False"







section \<open>Sample inputs\<close>

text \<open>
  A builder on Windows, connected over an active transport, with an empty staging
  directory \<open>/out/Payload\<close>, and the message the script sends with a payload.
\<close>

definition sample_config :: SSHConfig where
  "sample_config = \<lparr>host = ''127.0.0.1'', port = 22, username = ''root'',
                     password = Some ''alpine'', key_filename = None\<rparr>"

definition sample_builder :: builder where
  "sample_builder =
     \<lparr>output_dir = [''out''], file_dict = [], finished = False, ssh_client = Some Active,
      ssh_config = Some sample_config,
      fs = Dir [(''out'', Dir [(''Payload'', Dir [])])], connect_plan = [True],
      posix = False, protected = []\<rparr>"

definition send :: "json \<Rightarrow> message" where
  "send payload = [(''type'', JStr ''send''), (''payload'', payload)]"

text \<open>
  A machine with an empty disk, the arguments of a run on the application \<open>Foo\<close>
  with output directory \<open>/out\<close>, a device that lists this application as not
  running, and messages: the bundle root, two artifacts (the transfer of the first one
  fails) and completion.
\<close>

definition sample_machine :: machine where
  "sample_machine = \<lparr>home = [''home''], cwd = [''work''], disk = Dir [], plan = [True],
     os_posix = False, read_only = []\<rparr>"

definition sample_args :: args where
  "sample_args = \<lparr>target = ''Foo'', arg_host = ''127.0.0.1'', arg_port = 22,
     arg_user = ''root'', arg_password = Some ''alpine'', arg_key_file = None,
     arg_output = Some ''/out''\<rparr>"

definition sample_env :: "delivery list \<Rightarrow> run_env" where
  "sample_env ds = \<lparr>usb_iphone = Inr [\<lparr>info_identifier = ''com.example.foo'',
       info_name = ''Foo'', info_pid = 0\<rparr>],
     attach_raises = None, script_raises = None, deliveries = ds, detach_raises = False\<rparr>"

definition at :: "nat \<Rightarrow> json \<Rightarrow> scp_outcome \<Rightarrow> delivery" where
  "at t payload oc = \<lparr>arrival = t, link_drops = False, msg = send payload, answer = oc\<rparr>"





text \<open>
  A builder after the messages of a dump: the bundle root and one artifact are staged,
  beside a file no message accounts for.
\<close>

definition staged_builder :: builder where
  "staged_builder = sample_builder
     \<lparr>file_dict := [(''app'', ''Foo.app''), (''Lib.fid'', ''Frameworks/Lib'')],
      finished := True,
      fs := Dir [(''out'', Dir [(''Payload'',
               Dir [(''Foo.app'', Dir [(''Foo'', File (Bytes ''enc''))]),
                    (''Lib.fid'', File (Bytes ''declib'')),
                    (''stray'', File (Bytes ''s''))])])]\<rparr>"



section \<open>Properties\<close>

subsection \<open>Credentials\<close>

text \<open>
  C9, as stated, fails on the code: a configuration that supplies both a password and a
  key file is accepted, although it does not have exactly one usable method.
\<close>

theorem C9_both_methods_accepted:
  "SSHConfig_init ''127.0.0.1'' 22 ''root'' (Some ''alpine'') (Some ''id_rsa'') =
     Inr \<lparr>host = ''127.0.0.1'', port = 22, username = ''root'',
          password = Some ''alpine'', key_filename = Some ''id_rsa''\<rparr>
   \<and> \<not> exactly_one_method (Some ''alpine'') (Some ''id_rsa'')"
  by (simp add: SSHConfig_init_def truthy_opt_def exactly_one_method_def)

text \<open>
  C9, amended: construction succeeds exactly when at least one authentication method is
  truthy (a non-empty password or a non-empty key file name); a configuration lacking
  both raises ValueError, one supplying both is accepted. On the command line, arguments
  lacking both end the run with the usage error of the parser and exit status 2, before
  any connection attempt.
\<close>

theorem C9_at_least_one_method:
  "(\<exists>c. SSHConfig_init h p u pw kf = Inr c) = (truthy_opt pw \<or> truthy_opt kf)
   \<and> (SSHConfig_init h p u pw kf = Inl ValueError) = (\<not> truthy_opt pw \<and> \<not> truthy_opt kf)
   \<and> (\<not> truthy_opt (arg_password a) \<and> \<not> truthy_opt (arg_key_file a) \<longrightarrow>
        main w env a = ([UsageError], 2) \<and> Connect \<notin> set (fst (main w env a)))"
  by (simp add: SSHConfig_init_def main_def)

theorem C9_at_least_one_method_witness:
  "(\<exists>c. SSHConfig_init ''h'' 22 ''root'' None (Some ''id_rsa'') = Inr c)
   \<and> SSHConfig_init ''h'' 22 ''root'' None (Some []) = Inl ValueError
   \<and> main sample_machine (sample_env [])
        (sample_args\<lparr>arg_password := None, arg_key_file := Some []\<rparr>) = ([UsageError], 2)
   \<and> Connect \<notin> set (fst (main sample_machine (sample_env [])
        (sample_args\<lparr>arg_password := None, arg_key_file := Some []\<rparr>)))"
  using C9_at_least_one_method [of "''h''" 22 "''root''" None "Some ''id_rsa''"]
    C9_at_least_one_method [of "''h''" 22 "''root''" None "Some []"
      "sample_args\<lparr>arg_password := None, arg_key_file := Some []\<rparr>" sample_machine "sample_env []"]
  by (simp add: truthy_opt_def)

subsection \<open>The bundle-relative path\<close>

lemma find_from_first:
  "\<forall>i<length pre. \<not> prefix sub (drop i (pre @ sub @ rest)) \<Longrightarrow>
   find_from sub (pre @ sub @ rest) k = int (k + length pre)"
proof (induction pre arbitrary: k)
  case Nil
  have "prefix sub (sub @ rest)" by simp
  then show ?case by (cases "sub @ rest") simp_all
next
  case (Cons c pre)
  from Cons.prems have no: "\<not> prefix sub (c # pre @ sub @ rest)"
    by (metis append_Cons drop0 length_greater_0_conv list.distinct(1))
  from Cons.prems have "\<forall>i<length pre. \<not> prefix sub (drop i (pre @ sub @ rest))"
    by (metis Suc_less_eq append_Cons drop_Suc_Cons length_Cons)
  from Cons.IH [OF this, of "Suc k"] no show ?case by simp
qed

lemma scp_get_ok_open:
  "scp_get b progress oc remote r = (ev, None, b1) \<Longrightarrow> scp_open b = None"
  by (auto simp: scp_get_def split: option.splits)

text \<open>
  C4: when the reported original path is \<open>pre @ ''.app/'' @ rel\<close>, with no occurrence of
  the marker \<open>.app/\<close> starting inside \<open>pre\<close> (so that this is its first occurrence),
  and the transfer of the artifact succeeds, the handler returns and the artifact mapping
  maps the artifact's local file name to \<open>rel\<close>.
\<close>

theorem C4_relative_path_after_marker:
  assumes dump: "map_of kvs ''dump'' = Some (JStr remote)"
    and path: "map_of kvs ''path'' = Some (JStr (pre @ ''.app/'' @ rel))"
    and first: "\<forall>i<length pre. \<not> prefix ''.app/'' (drop i (pre @ ''.app/'' @ rel))"
    and transferred: "scp_get b progress oc remote False = (ev, None, b1)"
  shows "\<exists>b2. handle_dump_payload b (JDict kvs) progress oc = (ev, None, b2)
            \<and> map_of (file_dict b2) (path_name remote) = Some rel"
proof -
  have idx: "str_find (pre @ ''.app/'' @ rel) ''.app/'' = int (length pre)"
    using find_from_first [OF first, of 0] by (simp add: str_find_def)
  have sl: "slice_from (pre @ ''.app/'' @ rel) (int (length pre) + 5) = rel"
    by (simp add: slice_from_def nat_add_distrib)
  from transferred have "scp_open b = None" by (rule scp_get_ok_open)
  then show ?thesis
    using dump path transferred idx sl
    by (simp add: handle_dump_payload_def dump_transfer_def Let_def update_conv')
qed

theorem C4_relative_path_after_marker_witness:
  "map_of (file_dict (snd (snd (handle_dump_payload sample_builder
      (JDict [(''dump'', JStr ''/tmp/x.fid''), (''path'', JStr ''/F.app/Bar/Baz.bin'')])
      update_progress (Fetched (File (Bytes ''d''))))))) ''x.fid'' = Some ''Bar/Baz.bin''"
proof -
  have first: "\<forall>i<length ''/F''. \<not> prefix ''.app/'' (drop i (''/F'' @ ''.app/'' @ ''Bar/Baz.bin''))"
    by (simp add: All_less_Suc)
  have nm: "path_name ''/tmp/x.fid'' = ''x.fid''"
    by (simp add: path_name_def parts_def)
  have tr: "scp_get sample_builder update_progress (Fetched (File (Bytes ''d''))) ''/tmp/x.fid'' False =
      ([Transfer ''/tmp/x.fid'' False], None,
       sample_builder\<lparr>fs := Dir [(''out'', Dir [(''Payload'',
            Dir [(''x.fid'', File (Bytes ''d''))])])]\<rparr>)"
    by code_simp
  from C4_relative_path_after_marker [OF _ _ first tr,
      of "[(''dump'', JStr ''/tmp/x.fid''), (''path'', JStr ''/F.app/Bar/Baz.bin'')]"]
  show ?thesis by (auto simp: nm)
qed

text \<open>
  C5 does not hold of the code: for an original path without the marker, \<open>find\<close>
  returns -1 and the handler records the path without its first four characters.
\<close>

theorem C5_marker_absent_recorded:
  "handle_dump_payload sample_builder
     (JDict [(''dump'', JStr ''/tmp/x.fid''), (''path'', JStr ''/var/containers/Foo/Bar'')])
     update_progress (Fetched (File (Bytes ''d''))) =
   ([Transfer ''/tmp/x.fid'' False], None,
    sample_builder
      \<lparr>file_dict := [(''x.fid'', ''/containers/Foo/Bar'')],
       fs := Dir [(''out'', Dir [(''Payload'', Dir [(''x.fid'', File (Bytes ''d''))])])]\<rparr>)"
  by code_simp

subsection \<open>The bounded wait\<close>

text \<open>
  C7: in every run that reaches the bounded wait (credentials accepted, connection made,
  device and application found, session attached, workspace prepared, script loaded) and
  in which no message handled within 7200 seconds sets the completion signal,
  \<open>dump_app\<close> raises TimeoutError, prints the failure summary last and returns False
  (the \<open>return\<close> of the \<open>finally\<close> block discards the exception), and the
  process exits with status 1.
\<close>

theorem C7_timeout_fails:
  assumes creds: "SSHConfig_init (arg_host a) (arg_port a) (arg_user a) (arg_password a)
                    (arg_key_file a) = Inr config"
    and conn: "connect_ssh (IpaBuilder_init w (arg_output a)) config = (evc, None, b)"
    and dev: "usb_iphone env = Inr apps"
    and found: "find (\<lambda>i. target a = info_identifier i \<or> target a = info_name i) apps = Some app"
    and attach: "attach_raises env = None"
    and dirs: "create_directories b = (None, b1)"
    and script: "script_raises env = None"
    and timeout: "\<not> finished (snd (pump 7200 b1 (deliveries env)))"
  shows "(\<exists>ev b2. dump_app env b (target a) = (ev @ [Summary False], Some TimeoutError, False, b2))
         \<and> snd (main w env a) = 1"
proof -
  obtain evp bp where p: "pump wait_timeout b1 (deliveries env) = (evp, bp)"
    by (cases "pump wait_timeout b1 (deliveries env)")
  with timeout have nf: "\<not> finished bp" by (simp add: wait_timeout_def)
  have s: "dump_session env b (info_name app) =
      ([LogInfo ''Starting dump process'', LogInfo ''Dumping application contents...'',
        LogInfo ''Waiting for the dump to complete...''] @ evp, Some TimeoutError, False, bp)"
    using dirs script p nf by (simp add: dump_session_def)
  have t: "\<exists>ev. dump_try env b (target a) = (ev, Some TimeoutError, True, False, bp)"
    using dev found attach s by (simp add: dump_try_def)
  then obtain ev where t': "dump_try env b (target a) = (ev, Some TimeoutError, True, False, bp)" ..
  have d: "\<exists>ev. dump_app env b (target a) = (ev @ [Summary False], Some TimeoutError, False, bp)"
    using t' by (simp add: dump_app_def)
  moreover from creds have "\<not> (\<not> truthy_opt (arg_password a) \<and> \<not> truthy_opt (arg_key_file a))"
    by (auto simp: SSHConfig_init_def split: if_splits)
  with d creds conn have "snd (main w env a) = 1"
    by (auto simp: main_def)
  ultimately show ?thesis by blast
qed

theorem C7_timeout_fails_witness:
  "(\<exists>ev b2. dump_app (sample_env [at 7201 (JDict [(''done'', JStr ''ok'')]) ScpFails])
        (sample_builder\<lparr>fs := Dir [], connect_plan := []\<rparr>) (target sample_args)
      = (ev @ [Summary False], Some TimeoutError, False, b2))
   \<and> snd (main sample_machine (sample_env [at 7201 (JDict [(''done'', JStr ''ok'')]) ScpFails])
        sample_args) = 1"
proof -
  have creds: "SSHConfig_init (arg_host sample_args) (arg_port sample_args) (arg_user sample_args)
      (arg_password sample_args) (arg_key_file sample_args) = Inr sample_config"
    by code_simp
  have conn: "connect_ssh (IpaBuilder_init sample_machine (arg_output sample_args)) sample_config
      = ([Connect, LogInfo ''SSH connection established successfully''], None,
         sample_builder\<lparr>fs := Dir [], connect_plan := []\<rparr>)"
    by code_simp
  have dirs: "create_directories (sample_builder\<lparr>fs := Dir [], connect_plan := []\<rparr>)
      = (None, sample_builder\<lparr>connect_plan := []\<rparr>)"
    by code_simp
  have timeout: "\<not> finished (snd (pump 7200 (sample_builder\<lparr>connect_plan := []\<rparr>)
      (deliveries (sample_env [at 7201 (JDict [(''done'', JStr ''ok'')]) ScpFails]))))"
    by code_simp
  from C7_timeout_fails [OF creds conn _ _ _ dirs _ timeout,
      of "[\<lparr>info_identifier = ''com.example.foo'', info_name = ''Foo'', info_pid = 0\<rparr>]"
         "\<lparr>info_identifier = ''com.example.foo'', info_name = ''Foo'', info_pid = 0\<rparr>"]
  show ?thesis by (simp add: sample_env_def sample_args_def)
qed

subsection \<open>Failures of assembly\<close>

text \<open>
  C3 does not hold of the code: \<open>generate_ipa\<close> catches what assembly raises and only
  logs it. In a run whose only message is the completion message the mapping has no
  \<open>app\<close> entry; the failure is logged, no archive is written, and still the summary
  reports success, \<open>dump_app\<close> returns True and the process exits with status 0.
\<close>

theorem C3_assembly_failure_swallowed:
  "(case dump_app (sample_env [at 5 (JDict [(''done'', JStr ''ok'')]) ScpFails])
          (sample_builder\<lparr>fs := Dir [], connect_plan := []\<rparr>) ''Foo'' of
      (ev, r, success, b) \<Rightarrow>
        LogError ''Failed to generate IPA'' \<in> set ev \<and> last ev = Summary True
        \<and> r = None \<and> success \<and> \<not> fs_exists (fs b) [''out'', ''Foo.ipa''])
   \<and> snd (main sample_machine (sample_env [at 5 (JDict [(''done'', JStr ''ok'')]) ScpFails])
        sample_args) = 0"
  by code_simp

subsection \<open>The liveness check\<close>

text \<open>
  C6 does not hold of the code: the methods that run never call
  \<open>_ensure_ssh_connection\<close>. When the device has dropped the connection, the
  \<open>with\<close> statement of the handler raises on the dead transport: no transfer is
  issued, no connection is attempted, the artifact is lost and \<open>on_message\<close> logs the
  error. The replaced first definition of the method connects again and transfers.
\<close>

theorem C6_transfer_without_liveness_check:
  "deliver sample_builder
     \<lparr>arrival = 10, link_drops = True,
      msg = send (JDict [(''dump'', JStr ''/tmp/x.fid''), (''path'', JStr ''/F.app/Bar/Baz.bin'')]),
      answer = Fetched (File (Bytes ''d''))\<rparr>
   = ([LogError ''Error handling message''], sample_builder\<lparr>ssh_client := Some Inactive\<rparr>)
   \<and> handle_dump_payload_shadowed (sample_builder\<lparr>ssh_client := Some Inactive\<rparr>)
        (JDict [(''dump'', JStr ''/tmp/x.fid''), (''path'', JStr ''/F.app/Bar/Baz.bin'')])
        update_progress (Fetched (File (Bytes ''d'')))
     = ([LogInfo ''Reconnecting SSH...'', Connect,
         LogInfo ''SSH connection established successfully'', Transfer ''/tmp/x.fid'' False],
        None,
        sample_builder
          \<lparr>file_dict := [(''x.fid'', ''Bar/Baz.bin'')],
           fs := Dir [(''out'', Dir [(''Payload'', Dir [(''x.fid'', File (Bytes ''d''))])])],
           connect_plan := []\<rparr>)"
  by code_simp

subsection \<open>The file system\<close>

lemma is_dir_simps [simp]:
  "is_dir (Dir kids) (x # q) = (case map_of kids x of None \<Rightarrow> False | Some k \<Rightarrow> is_dir k q)"
  "is_dir (File c) q = False"
  "is_dir (Dir kids) [] = True"
  by (cases q; simp add: is_dir_def split: option.splits)+

lemma is_file_simps [simp]:
  "is_file (Dir kids) (x # q) = (case map_of kids x of None \<Rightarrow> False | Some k \<Rightarrow> is_file k q)"
  "is_file (File c) (x # q) = False"
  "is_file (File c) [] = True"
  "is_file (Dir kids) [] = False"
  by (simp_all add: is_file_def split: option.splits)

lemma lookup_put_other:
  "\<not> prefix p q \<Longrightarrow> \<not> prefix q p \<Longrightarrow> fs_lookup (fs_put t p n) q = fs_lookup t q"
proof (induction t p n arbitrary: q rule: fs_put.induct)
  case (3 kids x p new)
  then show ?case
    by (cases q) (auto simp: update_conv' split: option.splits)
qed auto

lemma lookup_put_same:
  "p \<noteq> [] \<Longrightarrow> is_dir t (butlast p) \<Longrightarrow> fs_lookup (fs_put t p n) p = Some n"
proof (induction t p n rule: fs_put.induct)
  case (3 kids x p new)
  then show ?case
    by (auto simp: update_conv' split: option.splits if_splits)
qed auto

lemma is_dir_put:
  "\<not> prefix p q \<Longrightarrow> is_dir (fs_put t p n) q = is_dir t q"
proof (induction t p n arbitrary: q rule: fs_put.induct)
  case (3 kids x p new)
  then show ?case
    by (cases q) (auto simp: update_conv' split: option.splits)
qed auto

lemma is_file_put:
  "\<not> prefix p q \<Longrightarrow> is_file (fs_put t p n) q = is_file t q"
proof (induction t p n arbitrary: q rule: fs_put.induct)
  case (3 kids x p new)
  then show ?case
    by (cases q) (auto simp: update_conv' split: option.splits)
qed auto

lemma lookup_remove_other:
  "\<not> prefix p q \<Longrightarrow> \<not> prefix q p \<Longrightarrow> fs_lookup (fs_remove t p) q = fs_lookup t q"
proof (induction t p arbitrary: q rule: fs_remove.induct)
  case (3 kids x p)
  then show ?case
    by (cases q) (auto simp: update_conv' delete_conv' split: option.splits)
qed auto

lemma lookup_remove_same:
  "p \<noteq> [] \<Longrightarrow> fs_lookup (fs_remove t p) (p @ r) = None"
proof (induction t p rule: fs_remove.induct)
  case (3 kids x p)
  then show ?case
    by (auto simp: update_conv' delete_conv' split: option.splits)
qed auto

lemma is_dir_remove:
  "\<not> prefix p q \<Longrightarrow> is_dir (fs_remove t p) q = is_dir t q"
proof (induction t p arbitrary: q rule: fs_remove.induct)
  case (3 kids x p)
  then show ?case
    by (cases q) (auto simp: update_conv' delete_conv' split: option.splits)
qed auto

lemma is_file_remove:
  "\<not> prefix p q \<Longrightarrow> is_file (fs_remove t p) q = is_file t q"
proof (induction t p arbitrary: q rule: fs_remove.induct)
  case (3 kids x p)
  then show ?case
    by (cases q) (auto simp: update_conv' delete_conv' split: option.splits)
qed auto

lemma mkdir_parents_ok:
  "(\<And>q. prefix q p \<Longrightarrow> \<not> is_file t q) \<Longrightarrow> \<exists>t'. mkdir_parents t p = Inr t'"
proof (induction t p rule: mkdir_parents.induct)
  case (1 c)
  from 1 [of "[]"] show ?case by simp
next
  case (2 kids)
  show ?case by simp
next
  case (3 c x p)
  from 3 [of "[]"] show ?case by simp
next
  case (4 kids x p)
  show ?case
  proof (cases "map_of kids x")
    case None
    have "\<exists>t'. mkdir_parents (Dir []) p = Inr t'"
    proof (rule 4(1) [OF None])
      fix q assume "prefix q p"
      show "\<not> is_file (Dir []) q" by (cases q) simp_all
    qed
    with None show ?thesis by auto
  next
    case (Some k)
    have "\<exists>t'. mkdir_parents k p = Inr t'"
    proof (rule 4(2) [OF Some])
      fix q assume "prefix q p"
      then have "prefix (x # q) (x # p)" by simp
      from 4(3) [OF this] Some show "\<not> is_file k q" by simp
    qed
    with Some show ?thesis by auto
  qed
qed

lemma mkdir_parents_is_dir:
  "mkdir_parents t p = Inr t' \<Longrightarrow> prefix q p \<Longrightarrow> is_dir t' q"
proof (induction t p arbitrary: t' q rule: mkdir_parents.induct)
  case (4 kids x p)
  then show ?case
    by (cases q) (auto simp: update_conv' split: option.splits sum.splits)
qed auto

lemma mkdir_parents_other:
  "mkdir_parents t p = Inr t' \<Longrightarrow> \<not> prefix q p \<Longrightarrow> fs_lookup t' q = fs_lookup t q"
proof (induction t p arbitrary: t' q rule: mkdir_parents.induct)
  case (4 kids x p)
  show ?case
  proof (cases q)
    case Nil
    with 4 show ?thesis by simp
  next
    case (Cons y q')
    show ?thesis
    proof (cases "map_of kids x")
      case None
      with 4(3) obtain d where d: "mkdir_parents (Dir []) p = Inr d"
        and t': "t' = Dir (AList.update x d kids)"
        by (auto split: sum.splits)
      show ?thesis
      proof (cases "y = x")
        case True
        with 4(4) Cons have np: "\<not> prefix q' p" by simp
        from 4(1) [OF None d np] have "fs_lookup d q' = fs_lookup (Dir []) q'" .
        moreover from np have "q' \<noteq> []" by auto
        ultimately have "fs_lookup d q' = None" by (cases q') auto
        with True None t' Cons show ?thesis by (simp add: update_conv')
      next
        case False
        with t' Cons show ?thesis by (simp add: update_conv')
      qed
    next
      case (Some k)
      with 4(3) obtain k' where k': "mkdir_parents k p = Inr k'"
        and t': "t' = Dir (AList.update x k' kids)"
        by (auto split: sum.splits)
      show ?thesis
      proof (cases "y = x")
        case True
        with 4(4) Cons have np: "\<not> prefix q' p" by simp
        from 4(2) [OF Some k' np] True Some t' Cons show ?thesis by (simp add: update_conv')
      next
        case False
        with t' Cons show ?thesis by (simp add: update_conv')
      qed
    qed
  qed
qed auto

lemma lookup_put_exists:
  "fs_lookup t p = Some n0 \<Longrightarrow> fs_lookup (fs_put t p n) p = Some n"
proof (induction t p n arbitrary: n0 rule: fs_put.induct)
  case (3 kids x p new)
  then show ?case by (auto simp: update_conv' split: option.splits)
qed auto

lemma mkdir_parents_fresh:
  "mkdir_parents t p = Inr t' \<Longrightarrow> fs_lookup t p = None \<Longrightarrow> fs_lookup t' p = Some (Dir [])"
proof (induction t p arbitrary: t' rule: mkdir_parents.induct)
  case (4 kids x p)
  show ?case
  proof (cases "map_of kids x")
    case None
    with 4(3) obtain d where d: "mkdir_parents (Dir []) p = Inr d"
      and t': "t' = Dir (AList.update x d kids)"
      by (auto split: sum.splits)
    have "fs_lookup d p = Some (Dir [])"
    proof (cases p)
      case Nil
      with d show ?thesis by simp
    next
      case (Cons y p')
      then have "fs_lookup (Dir []) p = None" by simp
      from 4(1) [OF None d this] show ?thesis .
    qed
    with t' show ?thesis by (simp add: update_conv')
  next
    case (Some k)
    with 4(3) obtain k' where k': "mkdir_parents k p = Inr k'"
      and t': "t' = Dir (AList.update x k' kids)"
      by (auto split: sum.splits)
    from 4(4) Some have "fs_lookup k p = None" by simp
    from 4(2) [OF Some k' this] t' show ?thesis by (simp add: update_conv')
  qed
qed auto

lemma create_directories_empty:
  assumes "create_directories b = (None, b3)"
  shows "fs_lookup (fs b3) (payload_dir b3) = Some (Dir [])"
proof -
  from assms obtain fs1 where fs1: "mkdir_parents (fs b) (output_dir b) = Inr fs1"
    by (auto simp: create_directories_def split: sum.splits)
  define fs2 where "fs2 = (if fs_exists fs1 (payload_dir b) then fs_remove fs1 (payload_dir b) else fs1)"
  from assms fs1 obtain fs3 where fs3: "mkdir_new fs2 (payload_dir b) = Inr fs3"
    and b3: "b3 = b\<lparr>fs := fs3\<rparr>"
    by (auto simp: create_directories_def fs2_def Let_def split: sum.splits if_splits)
  have "fs_lookup fs2 (payload_dir b) = None"
    using lookup_remove_same [of "payload_dir b" fs1 "[]"]
    by (auto simp: fs2_def fs_exists_def payload_dir_def)
  moreover from fs3 have "mkdir_parents fs2 (payload_dir b) = Inr fs3"
    by (auto simp: mkdir_new_def split: if_splits)
  ultimately have "fs_lookup fs3 (payload_dir b) = Some (Dir [])"
    by (intro mkdir_parents_fresh)
  with b3 show ?thesis by (simp add: payload_dir_def)
qed

lemma assemble_frame:
  "assemble b nm = (ev, r, b1) \<Longrightarrow> output_dir b1 = output_dir b \<and> protected b1 = protected b"
  by (auto simp: assemble_def Let_def split: option.splits if_splits prod.splits)

lemma purge_items_kept:
  "snd (purge_items ro kids) =
     filter (\<lambda>(x, k). case k of Dir sub \<Rightarrow> endswith x ''.app'' | File c \<Rightarrow> x \<in> set ro) kids"
proof (induction kids)
  case Nil
  show ?case by simp
next
  case (Cons a kids)
  obtain x k where a: "a = (x, k)" by (cases a)
  obtain ev kept where p: "purge_items ro kids = (ev, kept)" by (cases "purge_items ro kids")
  with Cons a show ?case by (cases k) simp_all
qed

lemma lookup_append:
  "fs_lookup t p = Some n \<Longrightarrow> fs_lookup t (p @ q) = fs_lookup n q"
proof (induction t p rule: fs_lookup.induct)
  case (3 kids x p)
  then show ?case by (auto split: option.splits)
qed auto

lemma map_of_filter_first:
  "map_of kids x = Some v \<Longrightarrow> P (x, v) \<Longrightarrow> map_of (filter P kids) x = Some v"
  by (induction kids) auto

lemma map_of_filter_holds:
  "map_of (filter P kids) x = Some v \<Longrightarrow> P (x, v)"
  by (induction kids) (auto split: if_splits)

subsection \<open>Purging the staging directory\<close>

text \<open>
  C8, as stated, fails on the code: after \<open>generate_ipa\<close> the bundle-root directory
  is still in the staging directory, which is therefore not empty.
\<close>

theorem C8_bundle_root_stays:
  "fs_lookup (fs (snd (snd (generate_ipa staged_builder ''Foo'')))) [''out'', ''Payload'']
     = Some (Dir [(''Foo.app'', Dir [(''Foo'', File (Bytes ''enc'')),
                             (''Frameworks'', Dir [(''Lib'', File (Bytes ''declib''))])])])"
  by code_simp

text \<open>
  C8, amended: whatever the \<open>try\<close> block of \<open>generate_ipa\<close> did or raised, when the
  staging directory exists afterwards the method returns, and the staging directory then
  lists exactly its former entries that are directories with a name ending in
  \<open>.app\<close> or protected files (which \<open>unlink\<close> refuses to remove), in their order.
  So a directory of the staging directory whose name ends in \<open>.app\<close>, the bundle
  root among them, is retained with its content; every file left is a protected one;
  every directory left has a name ending in \<open>.app\<close>; paths outside the staging
  directory are as before. The staging directory becomes empty when
  \<open>create_directories\<close> succeeds at the start of the next run.
\<close>

theorem C8_purge_keeps_app_directories:
  assumes body: "assemble b nm = (ev1, r, b1)"
    and staged: "fs_lookup (fs b1) (payload_dir b1) = Some (Dir kids)"
  shows "\<exists>ev b2 kept.
           generate_ipa b nm = (ev, None, b2)
           \<and> payload_dir b2 = payload_dir b
           \<and> fs_lookup (fs b2) (payload_dir b) = Some (Dir kept)
           \<and> kept = filter (\<lambda>(x, k). case k of Dir sub \<Rightarrow> endswith x ''.app''
                                              | File c \<Rightarrow> x \<in> set (protected b)) kids
           \<and> (\<forall>x sub. endswith x ''.app''
                    \<and> fs_lookup (fs b1) (payload_dir b @ [x]) = Some (Dir sub)
                  \<longrightarrow> fs_lookup (fs b2) (payload_dir b @ [x]) = Some (Dir sub))
           \<and> (\<forall>x c. fs_lookup (fs b2) (payload_dir b @ [x]) = Some (File c)
                  \<longrightarrow> x \<in> set (protected b))
           \<and> (\<forall>x sub. fs_lookup (fs b2) (payload_dir b @ [x]) = Some (Dir sub)
                  \<longrightarrow> endswith x ''.app'')
           \<and> (\<forall>q. \<not> prefix (payload_dir b) q \<and> \<not> prefix q (payload_dir b)
                  \<longrightarrow> fs_lookup (fs b2) q = fs_lookup (fs b1) q)
           \<and> (\<forall>b3. create_directories b2 = (None, b3)
                  \<longrightarrow> fs_lookup (fs b3) (payload_dir b) = Some (Dir []))"
proof -
  let ?P = "\<lambda>(x, k). case k of Dir sub \<Rightarrow> endswith x ''.app''
                         | File c \<Rightarrow> x \<in> set (protected b)"
  define pd where "pd = payload_dir b"
  define kept where "kept = filter ?P kids"
  define b2 where "b2 = b1\<lparr>fs := fs_put (fs b1) pd (Dir kept)\<rparr>"
  from body have fr: "output_dir b1 = output_dir b" "protected b1 = protected b"
    by (auto dest: assemble_frame)
  then have pd1: "payload_dir b1 = pd" and pd2: "payload_dir b2 = pd"
    by (simp_all add: payload_dir_def pd_def b2_def)
  obtain evp where pi: "purge_items (protected b) kids = (evp, kept)"
    using purge_items_kept [of "protected b" kids]
    by (cases "purge_items (protected b) kids") (simp add: kept_def)
  have purge: "purge_staging b1 = (evp, None, b2)"
    using staged pi by (simp add: purge_staging_def b2_def pd1 fr)
  have gen: "\<exists>ev. generate_ipa b nm = (ev, None, b2)"
    using body purge by (simp add: generate_ipa_def)
  from staged have kids: "fs_lookup (fs b1) pd = Some (Dir kids)" by (simp add: pd1)
  have look: "fs_lookup (fs b2) pd = Some (Dir kept)"
    using kids by (simp add: b2_def lookup_put_exists)
  have below1: "fs_lookup (fs b1) (pd @ q) = fs_lookup (Dir kids) q" for q
    using kids by (rule lookup_append)
  have below2: "fs_lookup (fs b2) (pd @ q) = fs_lookup (Dir kept) q" for q
    using look by (rule lookup_append)
  have retained: "fs_lookup (fs b2) (pd @ [x]) = Some (Dir sub)"
    if "endswith x ''.app''" "fs_lookup (fs b1) (pd @ [x]) = Some (Dir sub)" for x sub
  proof -
    from that(2) have "map_of kids x = Some (Dir sub)"
      by (simp add: below1 split: option.splits)
    with that(1) have "map_of kept x = Some (Dir sub)"
      unfolding kept_def by (intro map_of_filter_first) simp_all
    then show ?thesis by (simp add: below2)
  qed
  have files: "x \<in> set (protected b)"
    if "fs_lookup (fs b2) (pd @ [x]) = Some (File c)" for x c
  proof -
    from that have "map_of kept x = Some (File c)"
      by (simp add: below2 split: option.splits)
    from map_of_filter_holds [OF this [unfolded kept_def]] show ?thesis by simp
  qed
  have dirs: "endswith x ''.app''"
    if "fs_lookup (fs b2) (pd @ [x]) = Some (Dir sub)" for x sub
  proof -
    from that have "map_of kept x = Some (Dir sub)"
      by (simp add: below2 split: option.splits)
    from map_of_filter_holds [OF this [unfolded kept_def]] show ?thesis by simp
  qed
  have frame: "fs_lookup (fs b2) q = fs_lookup (fs b1) q"
    if "\<not> prefix pd q" "\<not> prefix q pd" for q
    using that by (simp add: b2_def lookup_put_other)
  have nxt: "fs_lookup (fs b3) pd = Some (Dir [])" if "create_directories b2 = (None, b3)" for b3
  proof -
    from that have "output_dir b3 = output_dir b2"
      by (auto simp: create_directories_def Let_def split: sum.splits if_splits)
    then have "payload_dir b3 = pd" using pd2 by (simp add: payload_dir_def)
    with create_directories_empty [OF that] show ?thesis by simp
  qed
  from gen obtain ev where "generate_ipa b nm = (ev, None, b2)" ..
  with pd2 look retained files dirs frame nxt show ?thesis
    unfolding pd_def [symmetric] kept_def by blast
qed

theorem C8_purge_keeps_app_directories_witness:
  "fs_lookup (fs (snd (snd (generate_ipa (staged_builder\<lparr>protected := [''stray'']\<rparr>) ''Foo''))))
      [''out'', ''Payload'']
     = Some (Dir [(''Foo.app'', Dir [(''Foo'', File (Bytes ''enc'')),
                             (''Frameworks'', Dir [(''Lib'', File (Bytes ''declib''))])]),
                  (''stray'', File (Bytes ''s''))])"
proof -
  let ?b1 = "staged_builder\<lparr>protected := [''stray''],
      fs := Dir [(''out'', Dir [(''Payload'',
               Dir [(''Foo.app'', Dir [(''Foo'', File (Bytes ''enc'')),
                             (''Frameworks'', Dir [(''Lib'', File (Bytes ''declib''))])]),
                    (''stray'', File (Bytes ''s''))]),
            (''Foo.ipa'', File (Archive
                 [([''Payload'', ''Foo.app'', ''Foo''], Bytes ''enc''),
                  ([''Payload'', ''Foo.app'', ''Frameworks'', ''Lib''], Bytes ''declib'')]))])]\<rparr>"
  have body: "assemble (staged_builder\<lparr>protected := [''stray'']\<rparr>) ''Foo'' =
     ([LogInfo ''Generating IPA'', LogInfo ''IPA generated successfully''], None, ?b1)"
    by code_simp
  have staged: "fs_lookup (fs ?b1) (payload_dir ?b1) =
      Some (Dir [(''Foo.app'', Dir [(''Foo'', File (Bytes ''enc'')),
                             (''Frameworks'', Dir [(''Lib'', File (Bytes ''declib''))])]),
                    (''stray'', File (Bytes ''s''))])"
    by code_simp
  have pd: "payload_dir (staged_builder\<lparr>protected := [''stray'']\<rparr>) = [''out'', ''Payload'']"
    by code_simp
  from C8_purge_keeps_app_directories [OF body staged]
  obtain ev b2 where "generate_ipa (staged_builder\<lparr>protected := [''stray'']\<rparr>) ''Foo'' = (ev, None, b2)"
    and "fs_lookup (fs b2) (payload_dir (staged_builder\<lparr>protected := [''stray'']\<rparr>)) =
      Some (Dir (filter (\<lambda>(x, k). case k of Dir sub \<Rightarrow> endswith x ''.app''
                   | File c \<Rightarrow> x \<in> set (protected (staged_builder\<lparr>protected := [''stray'']\<rparr>)))
         [(''Foo.app'', Dir [(''Foo'', File (Bytes ''enc'')),
                             (''Frameworks'', Dir [(''Lib'', File (Bytes ''declib''))])]),
                    (''stray'', File (Bytes ''s''))]))"
    by blast
  then show ?thesis by (simp add: pd endswith_def suffix_to_prefix)
qed

subsection \<open>Failed transfers\<close>









subsection \<open>Message routing\<close>

text \<open>
  The tests of the code agree with the tests of the specification: \<open>str.find\<close> is
  non-negative exactly on a substring, \<open>in\<close> holds exactly of a field of the payload,
  truthiness is the presence of a payload, and the slice after the marker is what
  \<open>after_marker\<close> returns.
\<close>

lemma find_from_sublist: "(0 \<le> find_from sub s i) = sublist sub s"
proof (induction s arbitrary: i)
  case Nil
  show ?case by simp
next
  case (Cons c cs)
  show ?case
  proof (cases "prefix sub (c # cs)")
    case True
    then show ?thesis by (simp del: prefix_code)
  next
    case False
    with Cons [of "Suc i"] show ?thesis by (simp add: sublist_Cons_right del: prefix_code)
  qed
qed

lemma py_in_spec:
  "py_in k p =
     (case p of JDict kvs \<Rightarrow> Inr (spec_field k p) | JStr s \<Rightarrow> Inr (spec_field k p)
      | JList xs \<Rightarrow> Inr (spec_field k p) | _ \<Rightarrow> Inl TypeError)"
  by (cases p)
     (auto simp: is_substring_def str_find_def find_from_sublist
        map_of_eq_None_iff)


lemma not_spec_field_py_in: "\<not> spec_field k p \<Longrightarrow> py_in k p \<noteq> Inr True"
  by (cases p) (auto simp: py_in_spec)












end
